theory Spec2Isabelle
  imports Complex_Main
begin

section \<open>JavaScript values as they reach the converter\<close>

text \<open>
  The converter (class \<open>ClaudeToOpenAIConverter\<close>) works on parsed JSON. The records
  below give the objects the shape the two APIs give them: an optional property is an
  \<open>option\<close> (\<open>None\<close> is an absent, undefined or null property), a property the
  API's schema requires is a plain field. Strings are character lists, numbers that the
  code only counts with are \<open>int\<close>.

  JavaScript's truthiness test on an optional string (\<open>if (delta.content)\<close>,
  \<open>sessionId || 'default'\<close>) passes for a present, non-empty string only; on an optional
  number (\<open>if (usage.prompt_tokens)\<close>) for a present, non-zero one only.
\<close>

definition truthy_str :: "string option \<Rightarrow> string option" where
  "truthy_str v = (case v of None \<Rightarrow> None | Some s \<Rightarrow> if s = [] then None else Some s)"

definition truthy_num :: "int option \<Rightarrow> int option" where
  "truthy_num v = (case v of None \<Rightarrow> None | Some n \<Rightarrow> if n = 0 then None else Some n)"

definition or_else :: "string option \<Rightarrow> string \<Rightarrow> string" where
  "or_else v d = (case truthy_str v of None \<Rightarrow> d | Some s \<Rightarrow> s)"

section \<open>Upstream stream chunks\<close>

record function_delta =
  fn_name :: "string option"
  fn_arguments :: "string option"

record tool_call_delta =
  tc_index :: "int option"
  tc_id :: "string option"
  tc_function :: "function_delta option"

record delta =
  d_role :: "string option"
  d_content :: "string option"
  d_reasoning_content :: "string option"
  d_tool_calls :: "tool_call_delta list option"

record choice =
  c_delta :: "delta option"
  c_finish_reason :: "string option"

record usage =
  prompt_tokens :: "int option"
  completion_tokens :: "int option"

record chunk =
  choices :: "choice list option"
  model :: "string option"
  usage :: "usage option"

text \<open>\<open>choice.delta || {}\<close>: a missing delta is the object without properties.\<close>

definition empty_delta :: delta where
  "empty_delta = \<lparr>d_role = None, d_content = None, d_reasoning_content = None,
     d_tool_calls = None\<rparr>"

section \<open>Downstream events\<close>

text \<open>
  Every event is pushed as three lines, \<open>event: <name>\<close>, \<open>data: <json>\<close> and an empty
  line. The model keeps the event name and the properties of the JSON object that vary;
  the constant ones (\<open>text: ''\<close>, \<open>citations: null\<close>, \<open>input: {}\<close>, the null cache
  counters) are part of the constructor's meaning.
\<close>

datatype content_block =
  TextBlock
  | ThinkingBlock
  | ToolUseBlock string string

datatype block_delta =
  TextDelta string
  | ThinkingDelta string
  | SignatureDelta string
  | InputJsonDelta string

text \<open>
  \<open>_mapStopReason\<close> looks the reason up in an object literal: \<open>mapping[r] || 'end_turn'\<close>.
  A key of the literal gives its string; a property name that every object inherits
  from \<open>Object.prototype\<close> gives that inherited (truthy) member instead of a string;
  everything else, also a missing reason, gives \<open>end_turn\<close>.
\<close>

datatype stop_reason =
  Reason string
  | Inherited string

definition object_prototype_names :: "string list" where
  "object_prototype_names = [''constructor'', ''hasOwnProperty'', ''isPrototypeOf'',
     ''propertyIsEnumerable'', ''toLocaleString'', ''toString'', ''valueOf'',
     ''__defineGetter__'', ''__defineSetter__'', ''__lookupGetter__'',
     ''__lookupSetter__'', ''__proto__'']"

definition mapStopReason :: "string option \<Rightarrow> stop_reason" where
  "mapStopReason openaiReason =
     (case openaiReason of
        None \<Rightarrow> Reason ''end_turn''
      | Some r \<Rightarrow>
          if r = ''stop'' then Reason ''end_turn''
          else if r = ''length'' then Reason ''max_tokens''
          else if r = ''tool_calls'' then Reason ''tool_use''
          else if r = ''function_call'' then Reason ''tool_use''
          else if r = ''content_filter'' then Reason ''refusal''
          else if r \<in> set object_prototype_names then Inherited r
          else Reason ''end_turn'')"

datatype event =
  MessageStart string "string option"
  | ContentBlockStart int content_block
  | ContentBlockDelta int block_delta
  | ContentBlockStop int
  | MessageDelta (md_stop_reason: stop_reason) (md_stop_sequence: "string option")
      (md_input_tokens: int) (md_output_tokens: int)
  | MessageStop



section \<open>Stream state\<close>

record tool_block =
  started :: bool
  tb_id :: string
  tb_name :: string

text \<open>
  \<open>toolBlocks\<close> is a JavaScript \<open>Map\<close>: it iterates in insertion order, and \<open>set\<close> on
  a key it already holds replaces the value where it stands.
\<close>

record stream_state =
  messageStarted :: bool
  textBlockStarted :: bool
  thinkingBlockStarted :: bool
  toolBlocks :: "(int \<times> tool_block) list"
  contentBlockIndex :: int
  inputTokens :: int
  outputTokens :: int

definition tb_has :: "int \<Rightarrow> (int \<times> tool_block) list \<Rightarrow> bool" where
  "tb_has k tb = (k \<in> set (map fst tb))"

fun tb_set :: "int \<Rightarrow> tool_block \<Rightarrow> (int \<times> tool_block) list \<Rightarrow> (int \<times> tool_block) list" where
  "tb_set k v [] = [(k, v)]"
| "tb_set k v (p # ps) = (if fst p = k then (k, v) # ps else p # tb_set k v ps)"

text \<open>The state \<open>_getStreamState\<close> stores for a key it has not seen.\<close>

definition fresh_state :: stream_state where
  "fresh_state = \<lparr>messageStarted = False, textBlockStarted = False,
     thinkingBlockStarted = False, toolBlocks = [], contentBlockIndex = 0,
     inputTokens = 0, outputTokens = 0\<rparr>"

section \<open>The stream translator, \<open>_convertStreamEvent\<close>\<close>

text \<open>
  The function pushes events and mutates the state as it goes. Each stretch of it is a
  function from the state to the events pushed and the state left; \<open>phases\<close> runs such
  stretches one after the other.
\<close>

type_synonym phase = "stream_state \<Rightarrow> event list \<times> stream_state"

fun phases :: "phase list \<Rightarrow> phase" where
  "phases [] s = ([], s)"
| "phases (f # fs) s =
     (case f s of (e1, s1) \<Rightarrow> (case phases fs s1 of (e2, s2) \<Rightarrow> (e1 @ e2, s2)))"

text \<open>\<open>if (delta.role && !state.messageStarted)\<close>: the state is reset, no block is closed.\<close>

definition init_message :: "string \<Rightarrow> string option \<Rightarrow> chunk \<Rightarrow> delta \<Rightarrow> phase" where
  "init_message gen sessionId openaiChunk d s =
     (if truthy_str (d_role d) \<noteq> None \<and> \<not> messageStarted s
      then ([MessageStart (or_else sessionId (''msg_'' @ gen)) (model openaiChunk)],
            s\<lparr>messageStarted := True, textBlockStarted := False,
              thinkingBlockStarted := False, toolBlocks := [], contentBlockIndex := 0,
              inputTokens := 0, outputTokens := 0\<rparr>)
      else ([], s))"

text \<open>
  Closing an open thinking block: a \<open>signature_delta\<close>, then \<open>content_block_stop\<close>. The
  content and tool-call branches advance the index afterwards, the finish branch does not.
\<close>

definition flush_thinking_advance :: phase where
  "flush_thinking_advance s =
     (if thinkingBlockStarted s
      then ([ContentBlockDelta (contentBlockIndex s) (SignatureDelta ''''),
             ContentBlockStop (contentBlockIndex s)],
            s\<lparr>contentBlockIndex := contentBlockIndex s + 1, thinkingBlockStarted := False\<rparr>)
      else ([], s))"

definition stop_text_advance :: phase where
  "stop_text_advance s =
     (if textBlockStarted s
      then ([ContentBlockStop (contentBlockIndex s)],
            s\<lparr>contentBlockIndex := contentBlockIndex s + 1, textBlockStarted := False\<rparr>)
      else ([], s))"

text \<open>
  Closing the tool blocks in the content and reasoning branches. The source clears the
  map first and then takes \<open>Math.max(state.contentBlockIndex, ...keys) + 1\<close> over the
  keys of the map it has just cleared.
\<close>

definition stop_tools_advance :: phase where
  "stop_tools_advance s =
     (if toolBlocks s \<noteq> []
      then (let stops = map (\<lambda>(index, _). ContentBlockStop index) (toolBlocks s);
                s1 = s\<lparr>toolBlocks := []\<rparr>
            in (stops,
                s1\<lparr>contentBlockIndex :=
                     foldr max (map fst (toolBlocks s1)) (contentBlockIndex s1) + 1\<rparr>))
      else ([], s))"

definition start_text :: phase where
  "start_text s =
     (if \<not> textBlockStarted s
      then ([ContentBlockStart (contentBlockIndex s) TextBlock], s\<lparr>textBlockStarted := True\<rparr>)
      else ([], s))"

definition start_thinking :: phase where
  "start_thinking s =
     (if \<not> thinkingBlockStarted s
      then ([ContentBlockStart (contentBlockIndex s) ThinkingBlock],
            s\<lparr>thinkingBlockStarted := True\<rparr>)
      else ([], s))"

definition handle_content :: "string \<Rightarrow> phase" where
  "handle_content txt =
     phases [flush_thinking_advance, stop_tools_advance, start_text,
       (\<lambda>s. ([ContentBlockDelta (contentBlockIndex s) (TextDelta txt)], s))]"

definition handle_reasoning :: "string \<Rightarrow> phase" where
  "handle_reasoning txt =
     phases [stop_text_advance, stop_tools_advance, start_thinking,
       (\<lambda>s. ([ContentBlockDelta (contentBlockIndex s) (ThinkingDelta txt)], s))]"

text \<open>One round of \<open>for (const toolCall of delta.tool_calls)\<close>.\<close>

definition tool_call_step :: "tool_call_delta \<Rightarrow> phase" where
  "tool_call_step toolCall s =
     (let index = (case tc_index toolCall of None \<Rightarrow> 0 | Some i \<Rightarrow> i);
          fn = tc_function toolCall;
          opened =
            (case truthy_str (tc_id toolCall) of
               None \<Rightarrow> ([], s)
             | Some toolId \<Rightarrow>
                 (let toolName = or_else (case fn of None \<Rightarrow> None | Some f \<Rightarrow> fn_name f) ''''
                  in ((if tb_has index (toolBlocks s) then [ContentBlockStop index] else [])
                        @ [ContentBlockStart index (ToolUseBlock toolId toolName)],
                      s\<lparr>toolBlocks := tb_set index
                          \<lparr>started = True, tb_id = toolId, tb_name = toolName\<rparr>
                          (toolBlocks s)\<rparr>)));
          args =
            (case truthy_str (case fn of None \<Rightarrow> None | Some f \<Rightarrow> fn_arguments f) of
               None \<Rightarrow> []
             | Some a \<Rightarrow> [ContentBlockDelta index (InputJsonDelta a)])
      in (fst opened @ args, snd opened))"

definition handle_tool_calls :: "tool_call_delta list \<Rightarrow> phase" where
  "handle_tool_calls tcs =
     phases ([stop_text_advance, flush_thinking_advance] @ map tool_call_step tcs)"

text \<open>The chain \<open>if (delta.content) ... else if (delta.reasoning_content) ... else if (tool_calls)\<close>.\<close>

definition handle_delta :: "delta \<Rightarrow> phase" where
  "handle_delta d s =
     (case truthy_str (d_content d) of
        Some txt \<Rightarrow> handle_content txt s
      | None \<Rightarrow>
          (case truthy_str (d_reasoning_content d) of
             Some txt \<Rightarrow> handle_reasoning txt s
           | None \<Rightarrow>
               (case d_tool_calls d of
                  Some (tc # tcs) \<Rightarrow> handle_tool_calls (tc # tcs) s
                | _ \<Rightarrow> ([], s))))"

definition handle_usage :: "usage option \<Rightarrow> phase" where
  "handle_usage u s =
     (case u of
        None \<Rightarrow> ([], s)
      | Some us \<Rightarrow>
          (let s1 = (case truthy_num (prompt_tokens us) of
                       None \<Rightarrow> s | Some n \<Rightarrow> s\<lparr>inputTokens := n\<rparr>);
               s2 = (case truthy_num (completion_tokens us) of
                       None \<Rightarrow> s1 | Some n \<Rightarrow> s1\<lparr>outputTokens := n\<rparr>)
           in ([], s2)))"

definition flush_thinking :: phase where
  "flush_thinking s =
     (if thinkingBlockStarted s
      then ([ContentBlockDelta (contentBlockIndex s) (SignatureDelta ''''),
             ContentBlockStop (contentBlockIndex s)],
            s\<lparr>thinkingBlockStarted := False\<rparr>)
      else ([], s))"

definition stop_text :: phase where
  "stop_text s =
     (if textBlockStarted s
      then ([ContentBlockStop (contentBlockIndex s)], s\<lparr>textBlockStarted := False\<rparr>)
      else ([], s))"

definition stop_tools :: phase where
  "stop_tools s =
     (if toolBlocks s \<noteq> []
      then (map (\<lambda>(index, _). ContentBlockStop index) (toolBlocks s), s\<lparr>toolBlocks := []\<rparr>)
      else ([], s))"

definition message_delta :: "string \<Rightarrow> phase" where
  "message_delta reason s =
     ([MessageDelta (mapStopReason (Some reason)) None 0 (inputTokens s + outputTokens s)], s)"

definition handle_finish :: "string option \<Rightarrow> phase" where
  "handle_finish finish_reason s =
     (case truthy_str finish_reason of
        None \<Rightarrow> ([], s)
      | Some reason \<Rightarrow> phases [flush_thinking, stop_text, stop_tools, message_delta reason] s)"

text \<open>
  \<open>_convertStreamEvent\<close> from the point where it holds the session's state. \<open>gen\<close> is
  the string \<open>_generateId()\<close> would draw.
\<close>

definition convertStreamEvent_state :: "string \<Rightarrow> string option \<Rightarrow> chunk \<Rightarrow> phase" where
  "convertStreamEvent_state gen sessionId openaiChunk s =
     (case (case choices openaiChunk of None \<Rightarrow> [] | Some cs \<Rightarrow> cs) of
        [] \<Rightarrow> ([], s)
      | ch # _ \<Rightarrow>
          (let d = (case c_delta ch of None \<Rightarrow> empty_delta | Some d \<Rightarrow> d)
           in phases [init_message gen sessionId openaiChunk d, handle_delta d,
                handle_usage (usage openaiChunk), handle_finish (c_finish_reason ch)] s))"

text \<open>A session: the chunks of one stream, translated one after the other on one state.\<close>

fun session :: "string \<Rightarrow> string option \<Rightarrow> chunk list \<Rightarrow> phase" where
  "session gen sessionId [] s = ([], s)"
| "session gen sessionId (c # cs) s =
     (case convertStreamEvent_state gen sessionId c s of
        (e1, s1) \<Rightarrow> (case session gen sessionId cs s1 of (e2, s2) \<Rightarrow> (e1 @ e2, s2)))"


text \<open>Which chunks have a first choice, and which of those carry a truthy \<open>delta.role\<close>.\<close>

definition first_choice :: "chunk \<Rightarrow> choice option" where
  "first_choice c = (case choices c of Some (ch # _) \<Rightarrow> Some ch | _ \<Rightarrow> None)"

definition carries_role :: "chunk \<Rightarrow> bool" where
  "carries_role c =
     (case first_choice c of
        None \<Rightarrow> False
      | Some ch \<Rightarrow> (case c_delta ch of None \<Rightarrow> False | Some d \<Rightarrow> truthy_str (d_role d) \<noteq> None))"


subsection \<open>Counting block events\<close>


fun is_block_start :: "int \<Rightarrow> event \<Rightarrow> bool" where
  "is_block_start i (ContentBlockStart j _) = (j = i)"
| "is_block_start i _ = False"

fun is_block_stop :: "int \<Rightarrow> event \<Rightarrow> bool" where
  "is_block_stop i (ContentBlockStop j) = (j = i)"
| "is_block_stop i _ = False"

definition count_starts :: "int \<Rightarrow> event list \<Rightarrow> nat" where
  "count_starts i evs = length (filter (is_block_start i) evs)"

definition count_stops :: "int \<Rightarrow> event list \<Rightarrow> nat" where
  "count_stops i evs = length (filter (is_block_stop i) evs)"

text \<open>
  The proofs follow the blocks a state holds open: \<open>bal\<close> is starts minus stops in an
  event list, \<open>open_count\<close> the number of blocks the state records as open at an index.
\<close>

definition bal :: "int \<Rightarrow> event list \<Rightarrow> int" where
  "bal i evs = int (count_starts i evs) - int (count_stops i evs)"








section \<open>The per-session state map and \<open>convertStreamChunk\<close>\<close>

text \<open>
  The converter is a singleton; \<open>_streamStates\<close> is its map from session key to state.
  \<open>sessionId || 'default'\<close> is the key of a call.
\<close>

type_synonym stream_states = "string \<rightharpoonup> stream_state"

definition session_key :: "string option \<Rightarrow> string" where
  "session_key sessionId = or_else sessionId ''default''"

definition getStreamState :: "string option \<Rightarrow> stream_states \<Rightarrow> stream_state \<times> stream_states" where
  "getStreamState sessionId m =
     (let key = or_else sessionId ''default''
      in case m key of
           None \<Rightarrow> (fresh_state, m(key \<mapsto> fresh_state))
         | Some st \<Rightarrow> (st, m))"

definition resetStreamState :: "string option \<Rightarrow> stream_states \<Rightarrow> stream_states" where
  "resetStreamState sessionId m = m(or_else sessionId ''default'' := None)"

text \<open>
  \<open>_convertStreamEvent\<close> as a whole: it fetches the state object of the session and
  mutates it in place, so the map holds the state it leaves.
\<close>

definition convertStreamEvent ::
  "string \<Rightarrow> chunk \<Rightarrow> string option \<Rightarrow> stream_states \<Rightarrow> event list \<times> stream_states" where
  "convertStreamEvent gen openaiChunk sessionId m =
     (case getStreamState sessionId m of
        (st, m1) \<Rightarrow>
          (case convertStreamEvent_state gen sessionId openaiChunk st of
             (events, st') \<Rightarrow> (events, m1(or_else sessionId ''default'' \<mapsto> st'))))"

text \<open>
  Strings are lists of code units below 256. \<open>split_on_newline\<close> is \<open>split('\n')\<close>,
  \<open>is_blank\<close> is \<open>trim() === ''\<close> on those characters.
\<close>

definition newline :: char where
  "newline = CHR 0x0A"

fun split_from :: "string \<Rightarrow> string \<Rightarrow> string list" where
  "split_from cur [] = [cur]"
| "split_from cur (a # rest) =
     (if a = newline then cur # split_from [] rest else split_from (cur @ [a]) rest)"

definition split_on_newline :: "string \<Rightarrow> string list" where
  "split_on_newline str = split_from [] str"

definition js_whitespace :: "char \<Rightarrow> bool" where
  "js_whitespace ch = (ch \<in> set [CHR 0x09, CHR 0x0A, CHR 0x0B, CHR 0x0C, CHR 0x0D, CHR 0x20, CHR 0xA0])"

definition is_blank :: "string \<Rightarrow> bool" where
  "is_blank str = list_all js_whitespace str"

text \<open>
  The loop over the lines of one frame. \<open>parse\<close> is \<open>JSON.parse\<close> read at the chunk
  type: \<open>None\<close> where it throws (the line is skipped). The function returns the events
  whose lines it would join into the result string; no event is the empty string.
\<close>

fun convert_lines ::
  "(string \<Rightarrow> chunk option) \<Rightarrow> string \<Rightarrow> string option \<Rightarrow> string list
     \<Rightarrow> stream_states \<Rightarrow> event list \<times> stream_states" where
  "convert_lines parse gen sessionId [] m = ([], m)"
| "convert_lines parse gen sessionId (line # rest) m =
     (if take 6 line = ''data: ''
      then (let data = drop 6 line
            in if data = ''[DONE]''
               then (case convert_lines parse gen sessionId rest
                            (resetStreamState (Some (session_key sessionId)) m) of
                       (evs, m') \<Rightarrow> (MessageStop # evs, m'))
               else (case parse data of
                       None \<Rightarrow> convert_lines parse gen sessionId rest m
                     | Some openaiChunk \<Rightarrow>
                         (case convertStreamEvent gen openaiChunk sessionId m of
                            (e1, m1) \<Rightarrow>
                              (case convert_lines parse gen sessionId rest m1 of
                                 (e2, m2) \<Rightarrow> (e1 @ e2, m2)))))
      else convert_lines parse gen sessionId rest m)"

definition convertStreamChunk ::
  "(string \<Rightarrow> chunk option) \<Rightarrow> string \<Rightarrow> string \<Rightarrow> string option
     \<Rightarrow> stream_states \<Rightarrow> event list \<times> stream_states" where
  "convertStreamChunk parse gen chunk sessionId m =
     (if chunk = [] \<or> is_blank chunk then ([], m)
      else convert_lines parse gen sessionId (split_on_newline chunk) m)"

text \<open>
  The same loop seen from the one map entry of the session: \<open>None\<close> is a key the map
  does not hold, a parsed chunk is translated on the state the entry holds (on the fresh
  state when it holds none), and \<open>[DONE]\<close> empties the entry.
\<close>

fun lines_on_entry ::
  "(string \<Rightarrow> chunk option) \<Rightarrow> string \<Rightarrow> string option \<Rightarrow> string list
     \<Rightarrow> stream_state option \<Rightarrow> event list \<times> stream_state option" where
  "lines_on_entry parse gen sessionId [] entry = ([], entry)"
| "lines_on_entry parse gen sessionId (line # rest) entry =
     (if take 6 line = ''data: ''
      then (if drop 6 line = ''[DONE]''
            then (case lines_on_entry parse gen sessionId rest None of
                    (evs, entry') \<Rightarrow> (MessageStop # evs, entry'))
            else (case parse (drop 6 line) of
                    None \<Rightarrow> lines_on_entry parse gen sessionId rest entry
                  | Some openaiChunk \<Rightarrow>
                      (case convertStreamEvent_state gen sessionId openaiChunk
                              (case entry of None \<Rightarrow> fresh_state | Some st \<Rightarrow> st) of
                         (e1, st') \<Rightarrow>
                           (case lines_on_entry parse gen sessionId rest (Some st') of
                              (e2, entry') \<Rightarrow> (e1 @ e2, entry')))))
      else lines_on_entry parse gen sessionId rest entry)"

definition chunk_on_entry ::
  "(string \<Rightarrow> chunk option) \<Rightarrow> string \<Rightarrow> string \<Rightarrow> string option
     \<Rightarrow> stream_state option \<Rightarrow> event list \<times> stream_state option" where
  "chunk_on_entry parse gen chunk sessionId entry =
     (if chunk = [] \<or> is_blank chunk then ([], entry)
      else lines_on_entry parse gen sessionId (split_on_newline chunk) entry)"

section \<open>The streaming dispatch of \<open>handleMessagesRequest\<close>\<close>

text \<open>
  The route keeps a tail buffer, cuts the upstream bytes at blank lines and hands every
  non-blank frame to \<open>convertStreamChunk\<close>; what comes back is written to the response.
  \<open>split_on_blank_line\<close> is \<open>split('\n\n')\<close>. The token totals the handler also
  collects for the usage recorder never reach the response and are left out.
\<close>

fun split_blank_from :: "string \<Rightarrow> string \<Rightarrow> string list" where
  "split_blank_from cur [] = [cur]"
| "split_blank_from cur [a] = [cur @ [a]]"
| "split_blank_from cur (a # b # rest) =
     (if a = newline \<and> b = newline then cur # split_blank_from [] rest
      else split_blank_from (cur @ [a]) (b # rest))"

definition split_on_blank_line :: "string \<Rightarrow> string list" where
  "split_on_blank_line str = split_blank_from [] str"

record dispatch =
  buffer :: string
  states :: stream_states
  written :: "event list"

fun write_frames ::
  "(string \<Rightarrow> chunk option) \<Rightarrow> string \<Rightarrow> string \<Rightarrow> string list \<Rightarrow> dispatch \<Rightarrow> dispatch" where
  "write_frames parse gen sessionId [] st = st"
| "write_frames parse gen sessionId (line # rest) st =
     (if \<not> is_blank line
      then (case convertStreamChunk parse gen line (Some sessionId) (states st) of
              (claudeChunk, m') \<Rightarrow>
                write_frames parse gen sessionId rest
                  (st\<lparr>states := m', written := written st @ claudeChunk\<rparr>))
      else write_frames parse gen sessionId rest st)"

text \<open>The \<open>data\<close> handler: \<open>lines.pop()\<close> keeps the unfinished tail in the buffer.\<close>

definition on_data ::
  "(string \<Rightarrow> chunk option) \<Rightarrow> string \<Rightarrow> string \<Rightarrow> string \<Rightarrow> dispatch \<Rightarrow> dispatch" where
  "on_data parse gen sessionId chunk st =
     (let lines = split_on_blank_line (buffer st @ chunk)
      in write_frames parse gen sessionId (butlast lines) (st\<lparr>buffer := last lines\<rparr>))"

text \<open>The \<open>end\<close> handler writes the two lines of a \<open>message_stop\<close> event.\<close>

definition on_end :: "dispatch \<Rightarrow> dispatch" where
  "on_end st = st\<lparr>written := written st @ [MessageStop]\<rparr>"

text \<open>
  One streamed request: a session id \<open>msg_<random>\<close>, the upstream chunks in order, then
  the end of the upstream.
\<close>

definition stream_request ::
  "(string \<Rightarrow> chunk option) \<Rightarrow> string \<Rightarrow> string list \<Rightarrow> stream_states \<Rightarrow> dispatch" where
  "stream_request parse rnd upstream m =
     on_end (foldl (\<lambda>st chunk. on_data parse rnd (''msg_'' @ rnd) chunk st)
       \<lparr>buffer = [], states = m, written = []\<rparr> upstream)"

section \<open>Anthropic requests\<close>

datatype json =
  JNull
  | JBool bool
  | JNum int
  | JStr string
  | JArr "json list"
  | JObj "(string \<times> json) list"

datatype image_source =
  Base64Image string string
  | UrlImage "string option"
  | OtherImageSource

datatype document_source =
  Base64Doc string
  | TextDoc string
  | ContentDoc "string option"
  | OtherDocSource

datatype result_part =
  TextPart string
  | OtherPart

datatype tool_result_content =
  ResultString string
  | ResultParts "result_part list"
  | ResultOther

text \<open>
  A content block by its \<open>type\<close>: \<open>BDocument\<close> carries the source and the optional
  title, \<open>BToolUse\<close> the id, name and input, \<open>BToolResult\<close> the \<open>tool_use_id\<close> and the
  content; \<open>BOther\<close> is any type the loop has no branch for. In \<open>ContentDoc\<close>, \<open>None\<close>
  is a \<open>content\<close> that is not a string.
\<close>

datatype claude_block =
  BText string
  | BImage image_source
  | BDocument document_source "string option"
  | BToolUse string string json
  | BToolResult string tool_result_content
  | BThinking
  | BOther

datatype message_content =
  ContentString string
  | ContentArray "claude_block list"
  | ContentOther

record claude_message =
  m_role :: string
  m_content :: message_content

datatype system_part =
  SysText string
  | SysOther

datatype system_prompt =
  SystemString string
  | SystemParts "system_part list"

record claude_tool =
  t_name :: string
  t_description :: "string option"
  t_input_schema :: json

record tool_choice =
  choice_type :: string
  choice_name :: "string option"
  disable_parallel_tool_use :: "bool option"

record claude_request =
  rq_model :: string
  rq_messages :: "claude_message list"
  rq_system :: "system_prompt option"
  rq_max_tokens :: "int option"
  rq_temperature :: "real option"
  rq_top_p :: "real option"
  rq_stop_sequences :: "string list option"
  rq_stream :: "bool option"
  rq_tools :: "claude_tool list option"
  rq_tool_choice :: "tool_choice option"
  rq_metadata :: "(string \<times> json) list option"

section \<open>OpenAI requests\<close>

datatype openai_part =
  PartText string
  | PartImageUrl string
  | PartFile string "string option"

datatype openai_content =
  OString string
  | OParts "openai_part list"
  | ONull

record openai_tool_call =
  call_id :: string
  call_name :: string
  call_arguments :: string

record openai_message =
  o_role :: string
  o_content :: openai_content
  o_tool_calls :: "openai_tool_call list option"
  o_tool_call_id :: "string option"

record openai_tool =
  fn_tool_name :: string
  fn_tool_description :: "string option"
  fn_tool_parameters :: json

datatype openai_tool_choice =
  ChoiceAuto
  | ChoiceRequired
  | ChoiceNone
  | ChoiceFunction "string option"

record openai_request =
  oq_model :: string
  oq_messages :: "openai_message list"
  oq_stream :: bool
  oq_max_completion_tokens :: "int option"
  oq_stop :: "string list option"
  oq_temperature :: "real option"
  oq_top_p :: "real option"
  oq_tools :: "openai_tool list option"
  oq_tool_choice :: "openai_tool_choice option"
  oq_parallel_tool_calls :: "bool option"
  oq_metadata :: "(string \<times> string) list option"

section \<open>The request transformer\<close>

text \<open>
  \<open>_convertMessageContent\<close> scans the blocks once and pushes to four arrays. What one
  block adds to each array is a function of the block; an array is what its function
  adds over the blocks in order. \<open>b64\<close> is \<open>Buffer.from(_).toString('base64')\<close>,
  \<open>stringify\<close> is \<open>JSON.stringify\<close>.
\<close>

definition image_url :: "image_source \<Rightarrow> string option" where
  "image_url source =
     (case source of
        Base64Image media_type d \<Rightarrow> truthy_str (Some (''data:'' @ media_type @ '';base64,'' @ d))
      | UrlImage url \<Rightarrow> truthy_str url
      | OtherImageSource \<Rightarrow> None)"

definition document_base64 :: "(string \<Rightarrow> string) \<Rightarrow> document_source \<Rightarrow> string option" where
  "document_base64 b64 source =
     (case source of
        Base64Doc d \<Rightarrow> truthy_str (Some d)
      | TextDoc d \<Rightarrow> truthy_str (Some (b64 d))
      | ContentDoc c \<Rightarrow> (case c of None \<Rightarrow> None | Some str \<Rightarrow> truthy_str (Some (b64 str)))
      | OtherDocSource \<Rightarrow> None)"

definition text_part :: "claude_block \<Rightarrow> openai_part option" where
  "text_part contentBlock = (case contentBlock of BText t \<Rightarrow> Some (PartText t) | _ \<Rightarrow> None)"

definition content_part :: "(string \<Rightarrow> string) \<Rightarrow> claude_block \<Rightarrow> openai_part option" where
  "content_part b64 contentBlock =
     (case contentBlock of
        BText t \<Rightarrow> Some (PartText t)
      | BImage source \<Rightarrow>
          (case image_url source of None \<Rightarrow> None | Some url \<Rightarrow> Some (PartImageUrl url))
      | BDocument source title \<Rightarrow>
          (case document_base64 b64 source of
             None \<Rightarrow> None
           | Some base64Content \<Rightarrow> Some (PartFile base64Content (truthy_str title)))
      | _ \<Rightarrow> None)"

definition tool_call_of :: "(json \<Rightarrow> string) \<Rightarrow> claude_block \<Rightarrow> openai_tool_call option" where
  "tool_call_of stringify contentBlock =
     (case contentBlock of
        BToolUse ident nm input \<Rightarrow>
          Some \<lparr>call_id = ident, call_name = nm, call_arguments = stringify input\<rparr>
      | _ \<Rightarrow> None)"

definition result_text_part :: "result_part \<Rightarrow> openai_part option" where
  "result_text_part p = (case p of TextPart t \<Rightarrow> Some (PartText t) | OtherPart \<Rightarrow> None)"

definition tool_result_of :: "claude_block \<Rightarrow> openai_message option" where
  "tool_result_of contentBlock =
     (case contentBlock of
        BToolResult tool_use_id c \<Rightarrow>
          Some \<lparr>o_role = ''tool'',
                o_content =
                  (case c of
                     ResultString str \<Rightarrow> OString str
                   | ResultParts ps \<Rightarrow> OParts (List.map_filter result_text_part ps)
                   | ResultOther \<Rightarrow> OString []),
                o_tool_calls = None, o_tool_call_id = Some tool_use_id\<rparr>
      | _ \<Rightarrow> None)"

text \<open>The function returns one message or an array of messages.\<close>

datatype converted =
  Single openai_message
  | Multiple "openai_message list"

definition plain_message :: "string \<Rightarrow> openai_content \<Rightarrow> openai_message" where
  "plain_message r c = \<lparr>o_role = r, o_content = c, o_tool_calls = None, o_tool_call_id = None\<rparr>"

definition convertMessageContent ::
  "(json \<Rightarrow> string) \<Rightarrow> (string \<Rightarrow> string) \<Rightarrow> claude_message \<Rightarrow> converted" where
  "convertMessageContent stringify b64 msg =
     (case m_content msg of
        ContentString c \<Rightarrow> Single (plain_message (m_role msg) (OString c))
      | ContentArray blocks \<Rightarrow>
          (let textParts = List.map_filter text_part blocks;
               contentParts = List.map_filter (content_part b64) blocks;
               toolCalls = List.map_filter (tool_call_of stringify) blocks;
               toolResults = List.map_filter tool_result_of blocks
           in if toolResults \<noteq> [] then Multiple toolResults
              else if m_role msg = ''assistant'' \<and> (textParts \<noteq> [] \<or> toolCalls \<noteq> [])
              then Single \<lparr>o_role = ''assistant'',
                     o_content = (if textParts \<noteq> [] then OParts textParts else ONull),
                     o_tool_calls = (if toolCalls \<noteq> [] then Some toolCalls else None),
                     o_tool_call_id = None\<rparr>
              else if m_role msg = ''user'' \<and> contentParts \<noteq> []
              then Single (plain_message ''user'' (OParts contentParts))
              else Single (plain_message (m_role msg) (OString [])))
      | ContentOther \<Rightarrow> Single (plain_message (m_role msg) (OString [])))"

definition system_messages :: "system_prompt option \<Rightarrow> openai_message list" where
  "system_messages sys =
     (case sys of
        None \<Rightarrow> []
      | Some (SystemString str) \<Rightarrow> (if str = [] then [] else [plain_message ''system'' (OString str)])
      | Some (SystemParts ps) \<Rightarrow>
          (let text = concat (map (\<lambda>p. case p of SysText t \<Rightarrow> t | SysOther \<Rightarrow> []) ps)
           in if text = [] then [] else [plain_message ''system'' (OString text)]))"

definition pushed :: "converted \<Rightarrow> openai_message list" where
  "pushed c = (case c of Multiple ms \<Rightarrow> ms | Single m \<Rightarrow> [m])"

definition convertMessages ::
  "(json \<Rightarrow> string) \<Rightarrow> (string \<Rightarrow> string) \<Rightarrow> claude_request \<Rightarrow> openai_message list" where
  "convertMessages stringify b64 claudeRequest =
     system_messages (rq_system claudeRequest)
     @ concat (map (\<lambda>msg. pushed (convertMessageContent stringify b64 msg))
         (rq_messages claudeRequest))"

definition convertTools :: "claude_tool list \<Rightarrow> openai_tool list" where
  "convertTools tools =
     map (\<lambda>tool. \<lparr>fn_tool_name = t_name tool, fn_tool_description = t_description tool,
                  fn_tool_parameters = t_input_schema tool\<rparr>) tools"

text \<open>
  \<open>_convertToolChoice\<close> returns the pair \<open>{toolChoice, parallelToolCalls}\<close>;
  \<open>!toolChoice.disable_parallel_tool_use\<close> is false for a present \<open>true\<close> only.
\<close>

definition convertToolChoice :: "tool_choice option \<Rightarrow> openai_tool_choice \<times> bool" where
  "convertToolChoice toolChoice =
     (case toolChoice of
        None \<Rightarrow> (ChoiceAuto, True)
      | Some tc \<Rightarrow>
          if choice_type tc = ''auto''
          then (ChoiceAuto, disable_parallel_tool_use tc \<noteq> Some True)
          else if choice_type tc = ''any''
          then (ChoiceRequired, disable_parallel_tool_use tc \<noteq> Some True)
          else if choice_type tc = ''tool''
          then (ChoiceFunction (choice_name tc), disable_parallel_tool_use tc \<noteq> Some True)
          else if choice_type tc = ''none''
          then (ChoiceNone, True)
          else (ChoiceAuto, True))"

text \<open>
  The entries of \<open>metadata\<close> are copied by assignment to a fresh object literal. An
  assignment to the key \<open>__proto__\<close> goes to the setter every object inherits, which
  ignores a string: that entry is lost.
\<close>

definition convertMetadata :: "(json \<Rightarrow> string) \<Rightarrow> (string \<times> json) list \<Rightarrow> (string \<times> string) list" where
  "convertMetadata stringify md =
     List.map_filter
       (\<lambda>(key, v). if key = ''__proto__'' then None
                   else (case v of
                           JNull \<Rightarrow> None
                         | JStr str \<Rightarrow> Some (key, str)
                         | _ \<Rightarrow> Some (key, stringify v))) md"

definition convertRequest ::
  "(json \<Rightarrow> string) \<Rightarrow> (string \<Rightarrow> string) \<Rightarrow> claude_request \<Rightarrow> openai_request" where
  "convertRequest stringify b64 claudeRequest =
     (let converted_choice =
            (case rq_tools claudeRequest of
               None \<Rightarrow> None
             | Some _ \<Rightarrow>
                 (case rq_tool_choice claudeRequest of
                    None \<Rightarrow> None
                  | Some tc \<Rightarrow> Some (convertToolChoice (Some tc))))
      in \<lparr>oq_model = rq_model claudeRequest,
          oq_messages = convertMessages stringify b64 claudeRequest,
          oq_stream = (rq_stream claudeRequest = Some True),
          oq_max_completion_tokens = truthy_num (rq_max_tokens claudeRequest),
          oq_stop = rq_stop_sequences claudeRequest,
          oq_temperature = rq_temperature claudeRequest,
          oq_top_p = rq_top_p claudeRequest,
          oq_tools = map_option convertTools (rq_tools claudeRequest),
          oq_tool_choice = map_option fst converted_choice,
          oq_parallel_tool_calls =
            (case converted_choice of
               None \<Rightarrow> None
             | Some (_, parallelToolCalls) \<Rightarrow> if parallelToolCalls = False then Some False else None),
          oq_metadata = map_option (convertMetadata stringify) (rq_metadata claudeRequest)\<rparr>)"

section \<open>The response transformer\<close>

text \<open>
  A non-streamed response as it comes out of \<open>JSON.parse\<close>. \<open>convertResponse\<close> reads
  \<open>message.content\<close>, \<open>toolCall.type\<close> and, for a tool call of type \<open>function\<close>,
  \<open>toolCall.function.arguments\<close> without a test: a first choice without a message, a
  \<open>null\<close> among the tool calls and a function tool call without its function object
  make it throw a \<open>TypeError\<close>. An element of \<open>choices\<close> or of \<open>tool_calls\<close> that is
  \<open>null\<close> is \<open>None\<close> in the list.
\<close>

record openai_function =
  f_name :: string
  f_arguments :: string

record response_tool_call =
  call_type :: string
  rcall_id :: string
  call_function :: "openai_function option"

record response_message =
  msg_content :: "string option"
  msg_reasoning_content :: "string option"
  msg_tool_calls :: "response_tool_call option list option"

record response_choice =
  ch_message :: "response_message option"
  ch_finish_reason :: "string option"

record openai_response =
  rs_id :: "string option"
  rs_model :: "string option"
  rs_choices :: "response_choice option list option"
  rs_usage :: "usage option"

text \<open>
  The \<open>input\<close> of a \<open>tool_use\<close> block is the parsed arguments, or the argument string
  itself where \<open>JSON.parse\<close> throws.
\<close>

datatype tool_input =
  ParsedInput json
  | RawInput string

datatype response_block =
  RText string
  | RThinking string
  | RToolUse string string tool_input

record claude_response =
  cr_id :: string
  cr_content :: "response_block list"
  cr_model :: "string option"
  cr_stop_reason :: stop_reason
  cr_stop_sequence :: "string option"
  cr_input_tokens :: int
  cr_output_tokens :: int

text \<open>
  The two ways \<open>convertResponse\<close> throws: its own
  \<open>Error('Invalid OpenAI response: "choices" array is empty or missing.')\<close> and the
  \<open>TypeError\<close> of reading a property of \<open>undefined\<close>.
\<close>

datatype error =
  InvalidUpstreamResponse
  | TypeError

definition is_function_call :: "response_tool_call \<Rightarrow> bool" where
  "is_function_call toolCall = (call_type toolCall = ''function'')"

definition tool_use_block ::
  "(string \<Rightarrow> json option) \<Rightarrow> response_tool_call \<Rightarrow> error + response_block" where
  "tool_use_block parse_json toolCall =
     (case call_function toolCall of
        None \<Rightarrow> Inl TypeError
      | Some fn \<Rightarrow>
          Inr (RToolUse (rcall_id toolCall) (f_name fn)
            (case parse_json (f_arguments fn) of
               None \<Rightarrow> RawInput (f_arguments fn)
             | Some v \<Rightarrow> ParsedInput v)))"

text \<open>
  One round of the loop over \<open>message.tool_calls\<close>: it throws, pushes a block or, for
  a tool call of another type, does nothing. The loop stops at the first throw.
\<close>

definition tool_call_round ::
  "(string \<Rightarrow> json option) \<Rightarrow> response_tool_call option \<Rightarrow> (error + response_block) list" where
  "tool_call_round parse_json entry =
     (case entry of
        None \<Rightarrow> [Inl TypeError]
      | Some toolCall \<Rightarrow>
          if is_function_call toolCall then [tool_use_block parse_json toolCall] else [])"

fun collect :: "(error + 'a) list \<Rightarrow> error + 'a list" where
  "collect [] = Inr []"
| "collect (Inl e # rest) = Inl e"
| "collect (Inr x # rest) = (case collect rest of Inl e \<Rightarrow> Inl e | Inr xs \<Rightarrow> Inr (x # xs))"

definition tool_calls_of :: "response_message \<Rightarrow> response_tool_call option list" where
  "tool_calls_of message = (case msg_tool_calls message of None \<Rightarrow> [] | Some tcs \<Rightarrow> tcs)"

definition response_content ::
  "(string \<Rightarrow> json option) \<Rightarrow> response_message \<Rightarrow> error + response_block list" where
  "response_content parse_json message =
     (case collect (concat (map (tool_call_round parse_json) (tool_calls_of message))) of
        Inl e \<Rightarrow> Inl e
      | Inr tool_uses \<Rightarrow>
          Inr ((case msg_content message of None \<Rightarrow> [] | Some t \<Rightarrow> [RText t])
               @ (case truthy_str (msg_reasoning_content message) of
                    None \<Rightarrow> [] | Some t \<Rightarrow> [RThinking t])
               @ tool_uses))"

definition usage_count :: "usage option \<Rightarrow> (usage \<Rightarrow> int option) \<Rightarrow> int" where
  "usage_count u field =
     (case u of None \<Rightarrow> 0 | Some us \<Rightarrow> (case truthy_num (field us) of None \<Rightarrow> 0 | Some n \<Rightarrow> n))"

definition convertResponse ::
  "(string \<Rightarrow> json option) \<Rightarrow> string \<Rightarrow> openai_response \<Rightarrow> error + claude_response" where
  "convertResponse parse_json gen openaiResponse =
     (case rs_choices openaiResponse of
        None \<Rightarrow> Inl InvalidUpstreamResponse
      | Some [] \<Rightarrow> Inl InvalidUpstreamResponse
      | Some (None # _) \<Rightarrow> Inl InvalidUpstreamResponse
      | Some (Some ch # _) \<Rightarrow>
          (case ch_message ch of
             None \<Rightarrow> Inl TypeError
           | Some message \<Rightarrow>
               (case response_content parse_json message of
                  Inl e \<Rightarrow> Inl e
                | Inr content \<Rightarrow>
                    Inr \<lparr>cr_id = or_else (rs_id openaiResponse) (''msg_'' @ gen),
                         cr_content = content,
                         cr_model = rs_model openaiResponse,
                         cr_stop_reason = mapStopReason (ch_finish_reason ch),
                         cr_stop_sequence = None,
                         cr_input_tokens = usage_count (rs_usage openaiResponse) prompt_tokens,
                         cr_output_tokens =
                           usage_count (rs_usage openaiResponse) completion_tokens\<rparr>)))"

text \<open>
  An entry of \<open>tool_calls\<close> the loop gets through: an object that, when its type is
  \<open>function\<close>, has its function object. \<open>function_calls\<close> are the entries of type
  \<open>function\<close>, in order.
\<close>

definition has_function :: "response_tool_call option \<Rightarrow> bool" where
  "has_function entry =
     (case entry of
        None \<Rightarrow> False
      | Some toolCall \<Rightarrow> is_function_call toolCall \<longrightarrow> call_function toolCall \<noteq> None)"

definition function_calls :: "response_tool_call option list \<Rightarrow> response_tool_call list" where
  "function_calls entries = filter is_function_call (List.map_filter (\<lambda>entry. entry) entries)"

section \<open>Example streams\<close>

text \<open>Chunks as an upstream sends them, used to run the translator on concrete streams.\<close>

definition delta_chunk :: "delta \<Rightarrow> string option \<Rightarrow> usage option \<Rightarrow> chunk" where
  "delta_chunk d fr u = \<lparr>choices = Some [\<lparr>c_delta = Some d, c_finish_reason = fr\<rparr>],
     model = Some ''m'', usage = u\<rparr>"

definition role_delta :: delta where
  "role_delta = empty_delta\<lparr>d_role := Some ''assistant''\<rparr>"

definition content_delta :: "string \<Rightarrow> delta" where
  "content_delta t = empty_delta\<lparr>d_content := Some t\<rparr>"

definition tool_open :: "int \<Rightarrow> string \<Rightarrow> tool_call_delta" where
  "tool_open i ident = \<lparr>tc_index = Some i, tc_id = Some ident,
     tc_function = Some \<lparr>fn_name = Some ''f'', fn_arguments = None\<rparr>\<rparr>"

definition tools_delta :: "tool_call_delta list \<Rightarrow> delta" where
  "tools_delta tcs = empty_delta\<lparr>d_tool_calls := Some tcs\<rparr>"

definition reasoning_delta :: "string \<Rightarrow> delta" where
  "reasoning_delta t = empty_delta\<lparr>d_reasoning_content := Some t\<rparr>"


text \<open>
  A stand-in for \<open>JSON.parse\<close> on three data lines: \<open>R\<close> is the opening chunk with the
  role, \<open>T\<close> a text delta, \<open>F\<close> the finishing chunk with its usage.
\<close>

definition example_parse :: "string \<Rightarrow> chunk option" where
  "example_parse str =
     (if str = ''R'' then Some (delta_chunk role_delta None None)
      else if str = ''T'' then Some (delta_chunk (content_delta ''he'') None None)
      else if str = ''F''
      then Some (delta_chunk empty_delta (Some ''stop'')
             (Some \<lparr>prompt_tokens = Some 1, completion_tokens = Some 2\<rparr>))
      else None)"

definition frame :: "string \<Rightarrow> string" where
  "frame str = ''data: '' @ str @ [newline, newline]"

section \<open>Example requests and responses\<close>

definition no_stringify :: "json \<Rightarrow> string" where
  "no_stringify v = ''{}''"

definition no_b64 :: "string \<Rightarrow> string" where
  "no_b64 str = str"

definition no_json :: "string \<Rightarrow> json option" where
  "no_json str = None"

definition request_with :: "claude_message list \<Rightarrow> claude_tool list option \<Rightarrow> tool_choice option
    \<Rightarrow> claude_request" where
  "request_with msgs tools tc = \<lparr>rq_model = ''m'', rq_messages = msgs, rq_system = None,
     rq_max_tokens = None, rq_temperature = None, rq_top_p = None, rq_stop_sequences = None,
     rq_stream = None, rq_tools = tools, rq_tool_choice = tc, rq_metadata = None\<rparr>"

definition a_tool :: claude_tool where
  "a_tool = \<lparr>t_name = ''f'', t_description = None, t_input_schema = JObj []\<rparr>"

definition choice_of_type :: "string \<Rightarrow> bool option \<Rightarrow> tool_choice" where
  "choice_of_type ty dis = \<lparr>choice_type = ty, choice_name = None, disable_parallel_tool_use = dis\<rparr>"

definition call_of_type :: "string \<Rightarrow> response_tool_call" where
  "call_of_type ty = \<lparr>call_type = ty, rcall_id = ''c1'',
     call_function = Some \<lparr>f_name = ''f'', f_arguments = ''{}''\<rparr>\<rparr>"

definition response_with :: "response_choice option list option \<Rightarrow> openai_response" where
  "response_with chs = \<lparr>rs_id = Some ''r1'', rs_model = Some ''m'', rs_choices = chs,
     rs_usage = None\<rparr>"

definition text_message ::
  "string \<Rightarrow> response_tool_call option list option \<Rightarrow> response_message" where
  "text_message t tcs = \<lparr>msg_content = Some t, msg_reasoning_content = None,
     msg_tool_calls = tcs\<rparr>"

definition text_choice ::
  "string \<Rightarrow> response_tool_call option list option \<Rightarrow> response_choice" where
  "text_choice t tcs = \<lparr>ch_message = Some (text_message t tcs), ch_finish_reason = Some ''stop''\<rparr>"

definition bare_choice :: response_choice where
  "bare_choice = \<lparr>ch_message = None, ch_finish_reason = Some ''stop''\<rparr>"

section \<open>Proofs: the stream translator\<close>

lemma phases_Nil: "phases [] s = ([], s)" by simp





















lemma bal_Nil [simp]: "bal i [] = 0"
  by (simp add: bal_def count_starts_def count_stops_def)


lemma bal_Cons_start [simp]: "bal i (ContentBlockStart j b # xs) = (if j = i then 1 else 0) + bal i xs"
  by (simp add: bal_def count_starts_def count_stops_def)

lemma bal_Cons_stop [simp]: "bal i (ContentBlockStop j # xs) = (if j = i then - 1 else 0) + bal i xs"
  by (simp add: bal_def count_starts_def count_stops_def)

lemma bal_Cons_delta [simp]: "bal i (ContentBlockDelta j b # xs) = bal i xs"
  by (simp add: bal_def count_starts_def count_stops_def)

lemma bal_Cons_md [simp]: "bal i (MessageDelta a b c d # xs) = bal i xs"
  by (simp add: bal_def count_starts_def count_stops_def)

lemma bal_Cons_ms [simp]: "bal i (MessageStart a b # xs) = bal i xs"
  by (simp add: bal_def count_starts_def count_stops_def)























lemma init_message_started:
  "messageStarted s \<Longrightarrow> init_message gen sid c d s = ([], s)"
  by (simp add: init_message_def)



















lemmas example_defs = delta_chunk_def role_delta_def content_delta_def tool_open_def
  tools_delta_def reasoning_delta_def empty_delta_def

lemmas stream_defs = convertStreamEvent_state_def init_message_def handle_delta_def
  handle_content_def handle_reasoning_def handle_tool_calls_def tool_call_step_def
  handle_usage_def handle_finish_def flush_thinking_advance_def stop_text_advance_def
  stop_tools_advance_def start_text_def start_thinking_def flush_thinking_def stop_text_def
  stop_tools_def message_delta_def truthy_str_def truthy_num_def or_else_def tb_has_def
  mapStopReason_def fresh_state_def first_choice_def carries_role_def Let_def



























text \<open>
  What the content and reasoning branches do to the index when tool blocks are open: one
  step up from where it stood, whatever the tool indices were.
\<close>

lemma stop_tools_advance_index:
  "toolBlocks s \<noteq> [] \<Longrightarrow>
     stop_tools_advance s
       = (map (\<lambda>(index, _). ContentBlockStop index) (toolBlocks s),
          s\<lparr>toolBlocks := [], contentBlockIndex := contentBlockIndex s + 1\<rparr>)"
  by (simp add: stop_tools_advance_def)

text \<open>
  C3. A stream opens two tool blocks at the upstream indices 0 and 1 and then sends
  text (or reasoning). The translator stops both tool blocks and clears the map, but it
  reads the keys after clearing, so \<open>contentBlockIndex\<close> becomes 1 and the new block
  opens at index 1, the index of the second tool block, where the maximum tool index plus
  one is 2.
\<close>

theorem content_after_tools_reuses_index:
  "map fst (toolBlocks (snd (session ''r'' (Some ''s1'')
       [delta_chunk role_delta None None,
        delta_chunk (tools_delta [tool_open 0 ''a'', tool_open 1 ''b'']) None None]
       fresh_state))) = [0, 1]
   \<and> fst (convertStreamEvent_state ''r'' (Some ''s1'') (delta_chunk (content_delta ''x'') None None)
       (snd (session ''r'' (Some ''s1'')
         [delta_chunk role_delta None None,
          delta_chunk (tools_delta [tool_open 0 ''a'', tool_open 1 ''b'']) None None]
         fresh_state)))
      = [ContentBlockStop 0, ContentBlockStop 1, ContentBlockStart 1 TextBlock,
         ContentBlockDelta 1 (TextDelta ''x'')]
   \<and> contentBlockIndex (snd (convertStreamEvent_state ''r'' (Some ''s1'')
       (delta_chunk (content_delta ''x'') None None)
       (snd (session ''r'' (Some ''s1'')
         [delta_chunk role_delta None None,
          delta_chunk (tools_delta [tool_open 0 ''a'', tool_open 1 ''b'']) None None]
         fresh_state)))) = 1
   \<and> fst (convertStreamEvent_state ''r'' (Some ''s1'')
       (delta_chunk (reasoning_delta ''x'') None None)
       (snd (session ''r'' (Some ''s1'')
         [delta_chunk role_delta None None,
          delta_chunk (tools_delta [tool_open 0 ''a'', tool_open 1 ''b'']) None None]
         fresh_state)))
      = [ContentBlockStop 0, ContentBlockStop 1, ContentBlockStart 1 ThinkingBlock,
         ContentBlockDelta 1 (ThinkingDelta ''x'')]"
  by (simp add: example_defs stream_defs)



section \<open>Proofs: the request transformer\<close>

lemmas request_examples = request_with_def a_tool_def choice_of_type_def no_stringify_def
  no_b64_def

text \<open>
  C6 (as amended). \<open>parallel_tool_calls\<close> is \<open>false\<close> exactly when \<open>tools\<close> is present
  and \<open>tool_choice\<close> is present with type \<open>auto\<close>, \<open>any\<close> or \<open>tool\<close> and
  \<open>disable_parallel_tool_use = true\<close>; in every other case it is absent.
\<close>

theorem parallel_tool_calls_when_disabled:
  "oq_parallel_tool_calls (convertRequest stringify b64 r)
     = (if rq_tools r \<noteq> None
           \<and> (\<exists>tc. rq_tool_choice r = Some tc
                 \<and> (choice_type tc = ''auto'' \<or> choice_type tc = ''any''
                      \<or> choice_type tc = ''tool'')
                 \<and> disable_parallel_tool_use tc = Some True)
        then Some False else None)"
  by (auto simp add: convertRequest_def convertToolChoice_def split: option.splits)

theorem parallel_tool_calls_when_disabled_witness:
  "oq_parallel_tool_calls (convertRequest no_stringify no_b64
      (request_with [] (Some [a_tool]) (Some (choice_of_type ''any'' (Some True))))) = Some False
   \<and> oq_parallel_tool_calls (convertRequest no_stringify no_b64
      (request_with [] (Some [a_tool]) (Some (choice_of_type ''any'' None)))) = None"
  using parallel_tool_calls_when_disabled [of no_stringify no_b64
      "request_with [] (Some [a_tool]) (Some (choice_of_type ''any'' (Some True)))"]
    parallel_tool_calls_when_disabled [of no_stringify no_b64
      "request_with [] (Some [a_tool]) (Some (choice_of_type ''any'' None))"]
  by (simp add: request_examples)

theorem parallel_tool_calls_counterexample:
  "disable_parallel_tool_use (choice_of_type ''none'' (Some True)) = Some True
   \<and> oq_parallel_tool_calls (convertRequest no_stringify no_b64
      (request_with [] (Some [a_tool]) (Some (choice_of_type ''none'' (Some True))))) = None
   \<and> disable_parallel_tool_use (choice_of_type ''auto'' (Some True)) = Some True
   \<and> oq_parallel_tool_calls (convertRequest no_stringify no_b64
      (request_with [] None (Some (choice_of_type ''auto'' (Some True))))) = None"
  by (simp add: request_examples convertRequest_def convertToolChoice_def)

text \<open>
  C9 (as amended). A user message with array content and no \<open>tool_result\<close> block
  becomes exactly one OpenAI message: \<open>{role: 'user', content: contentParts}\<close> when
  \<open>contentParts\<close> is non-empty, and the default \<open>{role: 'user', content: ''}\<close> when it is
  empty. With \<open>tool_result\<close> blocks it becomes the tool messages.
\<close>

theorem user_array_message:
  assumes "m_role msg = ''user''" and "m_content msg = ContentArray blocks"
  shows "convertMessageContent stringify b64 msg
     = (if List.map_filter tool_result_of blocks \<noteq> []
        then Multiple (List.map_filter tool_result_of blocks)
        else if List.map_filter (content_part b64) blocks \<noteq> []
        then Single (plain_message ''user'' (OParts (List.map_filter (content_part b64) blocks)))
        else Single (plain_message ''user'' (OString [])))
     \<and> (List.map_filter tool_result_of blocks = []
          \<longrightarrow> length (pushed (convertMessageContent stringify b64 msg)) = 1)"
  using assms by (simp add: convertMessageContent_def Let_def pushed_def)

theorem user_array_message_witness:
  "m_role \<lparr>m_role = ''user'', m_content = ContentArray [BThinking, BText ''hi'']\<rparr> = ''user''
   \<and> convertMessageContent no_stringify no_b64
        \<lparr>m_role = ''user'', m_content = ContentArray [BThinking, BText ''hi'']\<rparr>
      = Single (plain_message ''user'' (OParts [PartText ''hi'']))
   \<and> length (pushed (convertMessageContent no_stringify no_b64
        \<lparr>m_role = ''user'', m_content = ContentArray [BThinking, BText ''hi'']\<rparr>)) = 1"
proof -
  let ?m = "\<lparr>m_role = ''user'', m_content = ContentArray [BThinking, BText ''hi'']\<rparr>"
  have h1: "m_role ?m = ''user''" by simp
  have h2: "m_content ?m = ContentArray [BThinking, BText ''hi'']" by simp
  show ?thesis
    using h1 user_array_message [OF h1 h2, of no_stringify no_b64]
    by (simp add: tool_result_of_def content_part_def pushed_def)
qed

theorem thinking_only_user_message_counterexample:
  "convertMessages no_stringify no_b64
      (request_with [\<lparr>m_role = ''user'', m_content = ContentArray [BThinking]\<rparr>] None None)
     = [plain_message ''user'' (OString [])]
   \<and> length (convertMessages no_stringify no_b64
      (request_with [\<lparr>m_role = ''user'', m_content = ContentArray [BThinking]\<rparr>] None None)) = 1"
  by (simp add: request_examples convertMessages_def convertMessageContent_def
      system_messages_def pushed_def tool_result_of_def content_part_def
      text_part_def tool_call_of_def)

section \<open>Proofs: the response transformer\<close>

lemmas response_examples = response_with_def text_choice_def text_message_def bare_choice_def
  call_of_type_def no_json_def

lemmas response_defs = convertResponse_def response_content_def tool_use_block_def
  tool_call_round_def function_calls_def tool_calls_of_def is_function_call_def
  has_function_def usage_count_def mapStopReason_def
  or_else_def truthy_str_def truthy_num_def

lemma collect_Inr: "collect (map Inr xs) = Inr xs"
  by (induction xs) simp_all

lemma function_calls_simps:
  "function_calls [] = []"
  "function_calls (None # entries) = function_calls entries"
  "function_calls (Some tc # entries)
     = (if is_function_call tc then tc # function_calls entries else function_calls entries)"
  by (simp_all add: function_calls_def)

lemma length_function_calls: "length (function_calls entries) \<le> length entries"
proof (induction entries)
  case Nil
  show ?case by (simp add: function_calls_simps)
next
  case (Cons entry entries)
  then show ?case by (cases entry) (simp_all add: function_calls_simps)
qed

lemma tool_call_round_simps:
  "tool_call_round parse_json None = [Inl TypeError]"
  "tool_call_round parse_json (Some tc)
     = (if is_function_call tc then [tool_use_block parse_json tc] else [])"
  by (simp_all add: tool_call_round_def)

lemma tool_rounds_ok:
  "list_all has_function entries
   \<Longrightarrow> \<exists>blocks. concat (map (tool_call_round parse_json) entries) = map Inr blocks
         \<and> map (tool_use_block parse_json) (function_calls entries) = map Inr blocks"
proof (induction entries)
  case Nil
  show ?case by (simp add: function_calls_simps)
next
  case (Cons entry entries)
  then obtain blocks where
    b: "concat (map (tool_call_round parse_json) entries) = map Inr blocks"
      "map (tool_use_block parse_json) (function_calls entries) = map Inr blocks"
    by auto
  obtain tc where tc: "entry = Some tc"
    using Cons.prems by (cases entry) (simp_all add: has_function_def)
  show ?case
  proof (cases "is_function_call tc")
    case False
    then have "concat (map (tool_call_round parse_json) (entry # entries)) = map Inr blocks"
        "map (tool_use_block parse_json) (function_calls (entry # entries)) = map Inr blocks"
      using b tc by (simp_all add: tool_call_round_simps function_calls_simps)
    then show ?thesis by blast
  next
    case True
    then obtain fn where "call_function tc = Some fn"
      using Cons.prems tc by (auto simp add: has_function_def)
    then obtain block where "tool_use_block parse_json tc = Inr block"
      by (simp add: tool_use_block_def)
    then have "concat (map (tool_call_round parse_json) (entry # entries))
          = map Inr (block # blocks)"
        "map (tool_use_block parse_json) (function_calls (entry # entries))
          = map Inr (block # blocks)"
      using True b tc by (simp_all add: tool_call_round_simps function_calls_simps)
    then show ?thesis by blast
  qed
qed

lemma tool_rounds_bad:
  "\<not> list_all has_function entries
   \<Longrightarrow> collect (concat (map (tool_call_round parse_json) entries)) = Inl TypeError"
proof (induction entries)
  case Nil
  then show ?case by simp
next
  case (Cons entry entries)
  show ?case
  proof (cases entry)
    case None
    then show ?thesis by (simp add: tool_call_round_simps)
  next
    case (Some tc)
    show ?thesis
    proof (cases "is_function_call tc")
      case False
      then have "has_function entry" using Some by (simp add: has_function_def)
      then have "\<not> list_all has_function entries" using Cons.prems by simp
      then show ?thesis using Cons.IH Some False by (simp add: tool_call_round_simps)
    next
      case call: True
      show ?thesis
      proof (cases "call_function tc")
        case None
        then show ?thesis using Some call by (simp add: tool_call_round_simps tool_use_block_def)
      next
        case (Some fn)
        then have "has_function entry"
          using \<open>entry = Some tc\<close> by (simp add: has_function_def)
        then have "\<not> list_all has_function entries" using Cons.prems by simp
        then have "collect (concat (map (tool_call_round parse_json) entries)) = Inl TypeError"
          by (rule Cons.IH)
        then show ?thesis
          using Some call \<open>entry = Some tc\<close>
          by (simp add: tool_call_round_simps tool_use_block_def)
      qed
    qed
  qed
qed

lemma response_content_ok:
  assumes "list_all has_function (tool_calls_of message)"
  shows "\<exists>blocks. map (tool_use_block parse_json) (function_calls (tool_calls_of message))
        = map Inr blocks
      \<and> response_content parse_json message
        = Inr ((case msg_content message of None \<Rightarrow> [] | Some t \<Rightarrow> [RText t])
               @ (case truthy_str (msg_reasoning_content message) of
                    None \<Rightarrow> [] | Some t \<Rightarrow> [RThinking t])
               @ blocks)"
proof -
  obtain blocks where
    b: "concat (map (tool_call_round parse_json) (tool_calls_of message)) = map Inr blocks"
      "map (tool_use_block parse_json) (function_calls (tool_calls_of message)) = map Inr blocks"
    using tool_rounds_ok [OF assms] by blast
  then have "response_content parse_json message
        = Inr ((case msg_content message of None \<Rightarrow> [] | Some t \<Rightarrow> [RText t])
               @ (case truthy_str (msg_reasoning_content message) of
                    None \<Rightarrow> [] | Some t \<Rightarrow> [RThinking t])
               @ blocks)"
    by (simp add: response_content_def collect_Inr)
  then show ?thesis using b(2) by blast
qed

lemma response_content_bad:
  "\<not> list_all has_function (tool_calls_of message)
   \<Longrightarrow> response_content parse_json message = Inl TypeError"
  by (simp add: response_content_def tool_rounds_bad)

text \<open>
  C7 (as amended). For a response whose first choice's message has non-null content
  \<open>t\<close> and tool-call entries \<open>entries\<close> (none when \<open>tool_calls\<close> is missing): when
  every entry is an object and every one of type \<open>function\<close> has its function object,
  the content list is the text block, then a thinking block if \<open>reasoning_content\<close> is
  a non-empty string, then one \<open>tool_use\<close> block per entry whose type is \<open>function\<close>,
  in upstream order, and its length is between 1 and \<open>length entries + 2\<close>; otherwise
  the conversion throws a \<open>TypeError\<close>.
\<close>

theorem response_content_order:
  assumes "rs_choices r = Some (Some ch # rest)"
    and "ch_message ch = Some msg"
    and "msg_content msg = Some t"
    and "entries = tool_calls_of msg"
  shows "(list_all has_function entries \<longrightarrow>
      (\<exists>resp blocks. convertResponse parse_json gen r = Inr resp
        \<and> map (tool_use_block parse_json) (function_calls entries) = map Inr blocks
        \<and> cr_content resp
            = RText t
              # (case truthy_str (msg_reasoning_content msg) of
                   None \<Rightarrow> [] | Some rc \<Rightarrow> [RThinking rc])
              @ blocks
        \<and> length (cr_content resp)
            = 1 + (if truthy_str (msg_reasoning_content msg) = None then 0 else 1)
              + length (function_calls entries)
        \<and> 1 \<le> length (cr_content resp) \<and> length (cr_content resp) \<le> length entries + 2))
    \<and> (\<not> list_all has_function entries \<longrightarrow> convertResponse parse_json gen r = Inl TypeError)"
proof (intro conjI impI)
  assume ok: "list_all has_function entries"
  obtain blocks where
    b: "map (tool_use_block parse_json) (function_calls entries) = map Inr blocks"
    and c: "response_content parse_json msg
        = Inr (RText t
               # (case truthy_str (msg_reasoning_content msg) of
                    None \<Rightarrow> [] | Some rc \<Rightarrow> [RThinking rc])
               @ blocks)"
    using response_content_ok [of msg parse_json] ok assms(3) assms(4) by auto
  have "length blocks = length (function_calls entries)"
    using arg_cong [OF b, of length] by simp
  moreover have "length (function_calls entries) \<le> length entries"
    by (rule length_function_calls)
  moreover have "length (function_calls entries) \<le> Suc (length entries)"
    by (rule le_SucI) (rule length_function_calls)
  ultimately show "\<exists>resp blocks. convertResponse parse_json gen r = Inr resp
        \<and> map (tool_use_block parse_json) (function_calls entries) = map Inr blocks
        \<and> cr_content resp
            = RText t
              # (case truthy_str (msg_reasoning_content msg) of
                   None \<Rightarrow> [] | Some rc \<Rightarrow> [RThinking rc])
              @ blocks
        \<and> length (cr_content resp)
            = 1 + (if truthy_str (msg_reasoning_content msg) = None then 0 else 1)
              + length (function_calls entries)
        \<and> 1 \<le> length (cr_content resp) \<and> length (cr_content resp) \<le> length entries + 2"
    using assms(1) assms(2) b c
    by (auto simp add: convertResponse_def split: option.splits)
next
  assume "\<not> list_all has_function entries"
  then have "response_content parse_json msg = Inl TypeError"
    using response_content_bad assms(4) by simp
  then show "convertResponse parse_json gen r = Inl TypeError"
    using assms(1) assms(2) by (simp add: convertResponse_def)
qed

theorem response_content_order_witness:
  "rs_choices (response_with
        (Some [Some (text_choice ''hi'' (Some [Some (call_of_type ''function'')]))]))
     = Some (Some (text_choice ''hi'' (Some [Some (call_of_type ''function'')])) # [])
   \<and> list_all has_function [Some (call_of_type ''function'')]
   \<and> map_sum id cr_content (convertResponse no_json ''g''
        (response_with (Some [Some (text_choice ''hi'' (Some [Some (call_of_type ''function'')]))])))
     = Inr [RText ''hi'', RToolUse ''c1'' ''f'' (RawInput ''{}'')]"
proof -
  let ?msg = "text_message ''hi'' (Some [Some (call_of_type ''function'')])"
  let ?ch = "text_choice ''hi'' (Some [Some (call_of_type ''function'')])"
  have h1: "rs_choices (response_with (Some [Some ?ch])) = Some (Some ?ch # [])"
    by (simp add: response_with_def)
  have h2: "ch_message ?ch = Some ?msg" by (simp add: text_choice_def)
  have h3: "msg_content ?msg = Some ''hi''" by (simp add: text_message_def)
  have h4: "[Some (call_of_type ''function'')] = tool_calls_of ?msg"
    by (simp add: text_message_def tool_calls_of_def)
  have h5: "list_all has_function [Some (call_of_type ''function'')]"
    by (simp add: has_function_def call_of_type_def)
  show ?thesis
    using h1 h5 response_content_order [OF h1 h2 h3 h4, of no_json "''g''"]
    by (auto simp add: response_examples response_defs)
qed

theorem response_content_length_counterexample:
  "length [Some (call_of_type ''custom''), Some (call_of_type ''custom'')] = 2
   \<and> map_sum id cr_content (convertResponse no_json ''g''
        (response_with (Some [Some (text_choice ''hi''
           (Some [Some (call_of_type ''custom''), Some (call_of_type ''custom'')]))])))
     = Inr [RText ''hi'']
   \<and> length [RText ''hi''] \<notin> {2, 2 + 1, 2 + 2}"
  by (simp add: response_examples response_defs)

text \<open>
  C8 (as amended). \<open>convertResponse\<close> fails with the invalid-upstream-response error
  exactly when \<open>choices\<close> is missing, is empty or has \<open>null\<close> as its first element. It
  returns a message when the first choice has a message whose tool-call entries are
  objects, those of type \<open>function\<close> with their function object, and throws a
  \<open>TypeError\<close> when the message is missing or one of its entries is not so.
\<close>

theorem response_failure_and_success:
  "((convertResponse parse_json gen r = Inl InvalidUpstreamResponse)
      = (rs_choices r = None \<or> rs_choices r = Some []
          \<or> (\<exists>others. rs_choices r = Some (None # others))))
   \<and> (rs_choices r = Some (Some ch # rest) \<and> ch_message ch = Some msg
        \<and> list_all has_function (tool_calls_of msg)
      \<longrightarrow> (\<exists>resp. convertResponse parse_json gen r = Inr resp))
   \<and> (rs_choices r = Some (Some ch # rest)
        \<and> (ch_message ch = None
            \<or> (\<exists>m. ch_message ch = Some m \<and> \<not> list_all has_function (tool_calls_of m)))
      \<longrightarrow> convertResponse parse_json gen r = Inl TypeError)"
proof (intro conjI impI)
  show "(convertResponse parse_json gen r = Inl InvalidUpstreamResponse)
      = (rs_choices r = None \<or> rs_choices r = Some []
          \<or> (\<exists>others. rs_choices r = Some (None # others)))"
  proof (cases "rs_choices r")
    case None
    then show ?thesis by (simp add: convertResponse_def)
  next
    case (Some chs)
    show ?thesis
    proof (cases chs)
      case Nil
      then show ?thesis using Some by (simp add: convertResponse_def)
    next
      case (Cons c others)
      show ?thesis
      proof (cases c)
        case None
        then show ?thesis using Some Cons by (simp add: convertResponse_def)
      next
        case (Some c')
        have "convertResponse parse_json gen r \<noteq> Inl InvalidUpstreamResponse"
        proof (cases "ch_message c'")
          case None
          then show ?thesis
            using \<open>rs_choices r = Some chs\<close> Cons Some by (simp add: convertResponse_def)
        next
          case (Some m)
          show ?thesis
          proof (cases "list_all has_function (tool_calls_of m)")
            case True
            then obtain content where "response_content parse_json m = Inr content"
              using response_content_ok [of m parse_json] by blast
            then show ?thesis
              using \<open>rs_choices r = Some chs\<close> Cons \<open>c = Some c'\<close> Some
              by (simp add: convertResponse_def)
          next
            case False
            then have "response_content parse_json m = Inl TypeError"
              by (rule response_content_bad)
            then show ?thesis
              using \<open>rs_choices r = Some chs\<close> Cons \<open>c = Some c'\<close> Some
              by (simp add: convertResponse_def)
          qed
        qed
        then show ?thesis using \<open>rs_choices r = Some chs\<close> Cons Some by simp
      qed
    qed
  qed
next
  assume a: "rs_choices r = Some (Some ch # rest) \<and> ch_message ch = Some msg
        \<and> list_all has_function (tool_calls_of msg)"
  then obtain content where "response_content parse_json msg = Inr content"
    using response_content_ok [of msg parse_json] by blast
  then show "\<exists>resp. convertResponse parse_json gen r = Inr resp"
    using a by (simp add: convertResponse_def)
next
  assume a: "rs_choices r = Some (Some ch # rest)
        \<and> (ch_message ch = None
            \<or> (\<exists>m. ch_message ch = Some m \<and> \<not> list_all has_function (tool_calls_of m)))"
  show "convertResponse parse_json gen r = Inl TypeError"
  proof (cases "ch_message ch")
    case None
    then show ?thesis using a by (simp add: convertResponse_def)
  next
    case (Some m)
    then have "response_content parse_json m = Inl TypeError"
      using a response_content_bad by auto
    then show ?thesis using a Some by (simp add: convertResponse_def)
  qed
qed

theorem response_failure_and_success_witness:
  "convertResponse no_json ''g'' (response_with None) = Inl InvalidUpstreamResponse
   \<and> convertResponse no_json ''g'' (response_with (Some [])) = Inl InvalidUpstreamResponse
   \<and> convertResponse no_json ''g'' (response_with (Some [None])) = Inl InvalidUpstreamResponse
   \<and> list_all has_function (tool_calls_of (text_message ''hi'' None))
   \<and> \<not> isl (convertResponse no_json ''g'' (response_with (Some [Some (text_choice ''hi'' None)])))
   \<and> ch_message bare_choice = None
   \<and> convertResponse no_json ''g'' (response_with (Some [Some bare_choice])) = Inl TypeError"
proof -
  have ok: "list_all has_function (tool_calls_of (text_message ''hi'' None))"
    by (simp add: text_message_def tool_calls_of_def)
  have "convertResponse no_json ''g'' (response_with None) = Inl InvalidUpstreamResponse"
    using response_failure_and_success [of no_json "''g''" "response_with None"]
    by (simp add: response_with_def)
  moreover have "convertResponse no_json ''g'' (response_with (Some []))
      = Inl InvalidUpstreamResponse"
    using response_failure_and_success [of no_json "''g''" "response_with (Some [])"]
    by (simp add: response_with_def)
  moreover have "convertResponse no_json ''g'' (response_with (Some [None]))
      = Inl InvalidUpstreamResponse"
    using response_failure_and_success [of no_json "''g''" "response_with (Some [None])"]
    by (simp add: response_with_def)
  moreover have "\<not> isl (convertResponse no_json ''g''
      (response_with (Some [Some (text_choice ''hi'' None)])))"
    using ok response_failure_and_success [of no_json "''g''"
        "response_with (Some [Some (text_choice ''hi'' None)])" "text_choice ''hi'' None" "[]"
        "text_message ''hi'' None"]
    by (auto simp add: response_with_def text_choice_def)
  moreover have "convertResponse no_json ''g'' (response_with (Some [Some bare_choice]))
      = Inl TypeError"
    using response_failure_and_success [of no_json "''g''"
        "response_with (Some [Some bare_choice])" bare_choice "[]"]
    by (simp add: response_with_def bare_choice_def)
  ultimately show ?thesis using ok by (simp add: bare_choice_def)
qed

theorem response_without_message_counterexample:
  "rs_choices (response_with (Some [Some bare_choice])) \<noteq> None
   \<and> rs_choices (response_with (Some [Some bare_choice])) \<noteq> Some []
   \<and> convertResponse no_json ''g'' (response_with (Some [Some bare_choice])) = Inl TypeError
   \<and> rs_choices (response_with (Some [None])) \<noteq> None
   \<and> rs_choices (response_with (Some [None])) \<noteq> Some []
   \<and> convertResponse no_json ''g'' (response_with (Some [None])) = Inl InvalidUpstreamResponse"
  by (simp add: response_examples response_defs)

section \<open>Proofs: the state map and the dispatch\<close>

lemma session_key_nonempty: "session_key sid \<noteq> []"
  by (simp add: session_key_def or_else_def truthy_str_def split: option.splits)

lemma or_else_session_key: "or_else (Some (session_key sid)) d = session_key sid"
  using session_key_nonempty [of sid] by (simp add: or_else_def truthy_str_def)

lemma convertStreamEvent_eq:
  "convertStreamEvent gen c sid m
     = (fst (convertStreamEvent_state gen sid c
               (case m (session_key sid) of None \<Rightarrow> fresh_state | Some st \<Rightarrow> st)),
        m(session_key sid \<mapsto> snd (convertStreamEvent_state gen sid c
               (case m (session_key sid) of None \<Rightarrow> fresh_state | Some st \<Rightarrow> st))))"
  by (simp add: convertStreamEvent_def getStreamState_def session_key_def Let_def
      split: option.splits prod.splits)

lemma convert_lines_Cons_fst:
  "fst (convert_lines parse gen sid (line # rest) m)
     = (if take 6 line = ''data: ''
        then (if drop 6 line = ''[DONE]''
              then MessageStop # fst (convert_lines parse gen sid rest
                     (resetStreamState (Some (session_key sid)) m))
              else (case parse (drop 6 line) of
                      None \<Rightarrow> fst (convert_lines parse gen sid rest m)
                    | Some c \<Rightarrow> fst (convertStreamEvent gen c sid m)
                        @ fst (convert_lines parse gen sid rest (snd (convertStreamEvent gen c sid m)))))
        else fst (convert_lines parse gen sid rest m))"
  by (simp add: Let_def split: option.splits prod.splits)

lemma convert_lines_Cons_snd:
  "snd (convert_lines parse gen sid (line # rest) m)
     = (if take 6 line = ''data: ''
        then (if drop 6 line = ''[DONE]''
              then snd (convert_lines parse gen sid rest
                     (resetStreamState (Some (session_key sid)) m))
              else (case parse (drop 6 line) of
                      None \<Rightarrow> snd (convert_lines parse gen sid rest m)
                    | Some c \<Rightarrow>
                        snd (convert_lines parse gen sid rest (snd (convertStreamEvent gen c sid m)))))
        else snd (convert_lines parse gen sid rest m))"
  by (simp add: Let_def split: option.splits prod.splits)

lemma session_key_falsy: "sid = None \<or> sid = Some [] \<Longrightarrow> session_key sid = ''default''"
  by (auto simp add: session_key_def or_else_def truthy_str_def)

lemma session_key_Some: "a \<noteq> [] \<Longrightarrow> session_key (Some a) = a"
  by (simp add: session_key_def or_else_def truthy_str_def)

lemma lines_on_entry_Cons_fst:
  "fst (lines_on_entry parse gen sid (line # rest) entry)
     = (if take 6 line = ''data: ''
        then (if drop 6 line = ''[DONE]''
              then MessageStop # fst (lines_on_entry parse gen sid rest None)
              else (case parse (drop 6 line) of
                      None \<Rightarrow> fst (lines_on_entry parse gen sid rest entry)
                    | Some c \<Rightarrow>
                        fst (convertStreamEvent_state gen sid c
                               (case entry of None \<Rightarrow> fresh_state | Some st \<Rightarrow> st))
                        @ fst (lines_on_entry parse gen sid rest
                            (Some (snd (convertStreamEvent_state gen sid c
                               (case entry of None \<Rightarrow> fresh_state | Some st \<Rightarrow> st)))))))
        else fst (lines_on_entry parse gen sid rest entry))"
  by (simp split: option.splits prod.splits)

lemma lines_on_entry_Cons_snd:
  "snd (lines_on_entry parse gen sid (line # rest) entry)
     = (if take 6 line = ''data: ''
        then (if drop 6 line = ''[DONE]''
              then snd (lines_on_entry parse gen sid rest None)
              else (case parse (drop 6 line) of
                      None \<Rightarrow> snd (lines_on_entry parse gen sid rest entry)
                    | Some c \<Rightarrow>
                        snd (lines_on_entry parse gen sid rest
                            (Some (snd (convertStreamEvent_state gen sid c
                               (case entry of None \<Rightarrow> fresh_state | Some st \<Rightarrow> st)))))))
        else snd (lines_on_entry parse gen sid rest entry))"
  by (simp split: option.splits prod.splits)

lemma convert_lines_on_entry:
  "fst (convert_lines parse gen sid ls m)
     = fst (lines_on_entry parse gen sid ls (m (session_key sid)))
   \<and> snd (convert_lines parse gen sid ls m)
     = m(session_key sid := snd (lines_on_entry parse gen sid ls (m (session_key sid))))"
proof (induction ls arbitrary: m)
  case Nil
  show ?case by simp
next
  case (Cons line rest)
  let ?k = "session_key sid"
  note unfold = convert_lines_Cons_fst convert_lines_Cons_snd lines_on_entry_Cons_fst
    lines_on_entry_Cons_snd
  show ?case
  proof (cases "take 6 line = ''data: ''")
    case False
    then show ?thesis
      using Cons.IH [of m] by (simp add: unfold del: convert_lines.simps lines_on_entry.simps)
  next
    case data: True
    show ?thesis
    proof (cases "drop 6 line = ''[DONE]''")
      case True
      have reset: "resetStreamState (Some ?k) m = m(?k := None)"
        by (simp add: resetStreamState_def or_else_session_key)
      have "fst (convert_lines parse gen sid rest (m(?k := None)))
            = fst (lines_on_entry parse gen sid rest ((m(?k := None)) ?k))
          \<and> snd (convert_lines parse gen sid rest (m(?k := None)))
            = (m(?k := None))
                (?k := snd (lines_on_entry parse gen sid rest ((m(?k := None)) ?k)))"
        by (rule Cons.IH)
      then show ?thesis
        using data True reset
        by (simp add: unfold del: convert_lines.simps lines_on_entry.simps)
    next
      case False
      show ?thesis
      proof (cases "parse (drop 6 line)")
        case None
        then show ?thesis
          using data False Cons.IH [of m]
          by (simp add: unfold del: convert_lines.simps lines_on_entry.simps)
      next
        case (Some c)
        define r where "r = convertStreamEvent_state gen sid c
            (case m ?k of None \<Rightarrow> fresh_state | Some st \<Rightarrow> st)"
        have ev: "convertStreamEvent gen c sid m = (fst r, m(?k \<mapsto> snd r))"
          unfolding r_def by (rule convertStreamEvent_eq)
        have "fst (convert_lines parse gen sid rest (m(?k \<mapsto> snd r)))
              = fst (lines_on_entry parse gen sid rest ((m(?k \<mapsto> snd r)) ?k))
            \<and> snd (convert_lines parse gen sid rest (m(?k \<mapsto> snd r)))
              = (m(?k \<mapsto> snd r))
                  (?k := snd (lines_on_entry parse gen sid rest ((m(?k \<mapsto> snd r)) ?k)))"
          by (rule Cons.IH)
        then show ?thesis
          using data False Some ev
          by (simp add: unfold r_def [symmetric] del: convert_lines.simps lines_on_entry.simps)
      qed
    qed
  qed
qed

lemma convertStreamChunk_on_entry:
  "convertStreamChunk parse gen chunk sid m
     = (fst (chunk_on_entry parse gen chunk sid (m (session_key sid))),
        m(session_key sid := snd (chunk_on_entry parse gen chunk sid (m (session_key sid)))))"
proof (cases "chunk = [] \<or> is_blank chunk")
  case True
  then show ?thesis by (simp add: convertStreamChunk_def chunk_on_entry_def)
next
  case False
  have "convert_lines parse gen sid (split_on_newline chunk) m
      = (fst (lines_on_entry parse gen sid (split_on_newline chunk) (m (session_key sid))),
         m(session_key sid
             := snd (lines_on_entry parse gen sid (split_on_newline chunk) (m (session_key sid)))))"
    using convert_lines_on_entry [of parse gen sid "split_on_newline chunk" m]
    by (simp add: prod_eq_iff)
  then show ?thesis using False by (simp add: convertStreamChunk_def chunk_on_entry_def)
qed

text \<open>
  C10. A call of \<open>convertStreamChunk\<close> reads the map entry under \<open>session_key\<close> of its
  \<open>sessionId\<close>, translates the frame on the state found there (the fresh state when the
  map holds none) and stores what is left under the same key; no other entry is read or
  written. For a falsy \<open>sessionId\<close> (undefined, null or the empty string) the key is
  \<open>default\<close>, so a second stream that omits the \<open>sessionId\<close> continues on the state the
  first one left. For a non-empty \<open>sessionId\<close> the key is the id itself, so a call for
  \<open>a\<close> leaves the entry of another id \<open>b\<close> as it was and does not change what a call for
  \<open>b\<close> emits.
\<close>

theorem stream_state_keyed_by_session:
  "convertStreamChunk parse gen chunk sessionId m
     = (fst (chunk_on_entry parse gen chunk sessionId (m (session_key sessionId))),
        m(session_key sessionId
            := snd (chunk_on_entry parse gen chunk sessionId (m (session_key sessionId)))))
   \<and> (sessionId = None \<or> sessionId = Some [] \<longrightarrow>
        session_key sessionId = ''default''
        \<and> (other = None \<or> other = Some [] \<longrightarrow>
             convertStreamChunk parse gen chunk' other
                 (snd (convertStreamChunk parse gen chunk sessionId m))
               = (fst (chunk_on_entry parse gen chunk' other
                         (snd (chunk_on_entry parse gen chunk sessionId (m ''default'')))),
                  m(''default''
                      := snd (chunk_on_entry parse gen chunk' other
                                (snd (chunk_on_entry parse gen chunk sessionId (m ''default'')))))))
        )
   \<and> (a \<noteq> [] \<and> b \<noteq> [] \<and> a \<noteq> b \<longrightarrow>
        session_key (Some a) = a
        \<and> snd (convertStreamChunk parse gen chunk (Some a) m) b = m b
        \<and> fst (convertStreamChunk parse gen chunk' (Some b)
                 (snd (convertStreamChunk parse gen chunk (Some a) m)))
            = fst (convertStreamChunk parse gen chunk' (Some b) m))"
proof (intro conjI impI)
  show "convertStreamChunk parse gen chunk sessionId m
     = (fst (chunk_on_entry parse gen chunk sessionId (m (session_key sessionId))),
        m(session_key sessionId
            := snd (chunk_on_entry parse gen chunk sessionId (m (session_key sessionId)))))"
    by (rule convertStreamChunk_on_entry)
next
  assume "sessionId = None \<or> sessionId = Some []"
  then show "session_key sessionId = ''default''" by (rule session_key_falsy)
next
  assume f: "sessionId = None \<or> sessionId = Some []" and g: "other = None \<or> other = Some []"
  have k: "session_key sessionId = ''default''" "session_key other = ''default''"
    using f g session_key_falsy by auto
  show "convertStreamChunk parse gen chunk' other
                 (snd (convertStreamChunk parse gen chunk sessionId m))
               = (fst (chunk_on_entry parse gen chunk' other
                         (snd (chunk_on_entry parse gen chunk sessionId (m ''default'')))),
                  m(''default''
                      := snd (chunk_on_entry parse gen chunk' other
                                (snd (chunk_on_entry parse gen chunk sessionId (m ''default''))))))"
    by (simp add: convertStreamChunk_on_entry k)
next
  assume "a \<noteq> [] \<and> b \<noteq> [] \<and> a \<noteq> b"
  then show "session_key (Some a) = a" by (simp add: session_key_Some)
next
  assume d: "a \<noteq> [] \<and> b \<noteq> [] \<and> a \<noteq> b"
  then have "b \<noteq> a" by auto
  then show "snd (convertStreamChunk parse gen chunk (Some a) m) b = m b"
    using d by (simp add: convertStreamChunk_on_entry session_key_Some)
next
  assume d: "a \<noteq> [] \<and> b \<noteq> [] \<and> a \<noteq> b"
  then have "b \<noteq> a" by auto
  then show "fst (convertStreamChunk parse gen chunk' (Some b)
                 (snd (convertStreamChunk parse gen chunk (Some a) m)))
            = fst (convertStreamChunk parse gen chunk' (Some b) m)"
    using d by (simp add: convertStreamChunk_on_entry session_key_Some)
qed

lemmas chunk_defs = convertStreamChunk_def is_blank_def js_whitespace_def split_on_newline_def
  newline_def convertStreamEvent_def getStreamState_def resetStreamState_def session_key_def
  example_parse_def

theorem stream_state_keyed_by_session_witness:
  "convertStreamChunk example_parse ''g'' ''data: R'' None Map.empty
     = ([MessageStart ''msg_g'' (Some ''m'')],
        Map.empty(''default'' \<mapsto> fresh_state\<lparr>messageStarted := True\<rparr>))
   \<and> fst (convertStreamChunk example_parse ''g'' ''data: R'' (Some [])
        (snd (convertStreamChunk example_parse ''g'' ''data: R'' None Map.empty))) = []
   \<and> snd (convertStreamChunk example_parse ''g'' ''data: R'' (Some ''s1'')
        (Map.empty(''s2'' \<mapsto> fresh_state))) ''s2'' = Some fresh_state
   \<and> fst (convertStreamChunk example_parse ''g'' ''data: R'' (Some ''s2'')
        (snd (convertStreamChunk example_parse ''g'' ''data: R'' (Some ''s1'') Map.empty)))
       = [MessageStart ''s2'' (Some ''m'')]"
proof -
  have entry: "chunk_on_entry example_parse ''g'' ''data: R'' None None
      = ([MessageStart ''msg_g'' (Some ''m'')], Some (fresh_state\<lparr>messageStarted := True\<rparr>))"
    by (simp add: chunk_on_entry_def is_blank_def js_whitespace_def split_on_newline_def
        newline_def example_parse_def example_defs stream_defs)
  have again: "chunk_on_entry example_parse ''g'' ''data: R'' (Some [])
        (Some (fresh_state\<lparr>messageStarted := True\<rparr>))
      = ([], Some (fresh_state\<lparr>messageStarted := True\<rparr>))"
    by (simp add: chunk_on_entry_def is_blank_def js_whitespace_def split_on_newline_def
        newline_def example_parse_def example_defs stream_defs)
  have fresh: "fst (convertStreamChunk example_parse ''g'' ''data: R'' (Some ''s2'') Map.empty)
      = [MessageStart ''s2'' (Some ''m'')]"
    by (simp add: chunk_defs example_defs stream_defs)
  note one = stream_state_keyed_by_session [where parse = example_parse and gen = "''g''"
      and chunk = "''data: R''" and chunk' = "''data: R''" and sessionId = None
      and other = "Some []" and m = Map.empty and a = "''s1''" and b = "''s2''"]
  note two = stream_state_keyed_by_session [where parse = example_parse and gen = "''g''"
      and chunk = "''data: R''" and chunk' = "''data: R''" and sessionId = None
      and other = "Some []" and m = "Map.empty(''s2'' \<mapsto> fresh_state)"
      and a = "''s1''" and b = "''s2''"]
  have "convertStreamChunk example_parse ''g'' ''data: R'' None Map.empty
     = ([MessageStart ''msg_g'' (Some ''m'')],
        Map.empty(''default'' \<mapsto> fresh_state\<lparr>messageStarted := True\<rparr>))"
    using one [THEN conjunct1] entry by (simp add: session_key_def or_else_def truthy_str_def)
  moreover have "fst (convertStreamChunk example_parse ''g'' ''data: R'' (Some [])
        (snd (convertStreamChunk example_parse ''g'' ''data: R'' None Map.empty))) = []"
    using one [THEN conjunct2, THEN conjunct1] entry again by simp
  moreover have "snd (convertStreamChunk example_parse ''g'' ''data: R'' (Some ''s1'')
        (Map.empty(''s2'' \<mapsto> fresh_state))) ''s2'' = Some fresh_state"
    using two [THEN conjunct2, THEN conjunct2] by simp
  moreover have "fst (convertStreamChunk example_parse ''g'' ''data: R'' (Some ''s2'')
        (snd (convertStreamChunk example_parse ''g'' ''data: R'' (Some ''s1'') Map.empty)))
       = [MessageStart ''s2'' (Some ''m'')]"
    using one [THEN conjunct2, THEN conjunct2] fresh by simp
  ultimately show ?thesis by simp
qed

text \<open>
  C4. The upstream sends the opening chunk, a text delta, the finishing chunk and the
  \<open>[DONE]\<close> sentinel, and ends. \<open>convertStreamChunk\<close> writes \<open>message_stop\<close> for the
  sentinel, and the \<open>end\<close> handler writes a second one: it does not look whether one was
  sent.
\<close>

theorem done_then_end_writes_two_message_stops:
  "written (stream_request example_parse ''x''
      [frame ''R'', frame ''T'' @ frame ''F'', frame ''[DONE]''] Map.empty)
     = [MessageStart ''msg_x'' (Some ''m''), ContentBlockStart 0 TextBlock,
        ContentBlockDelta 0 (TextDelta ''he''), ContentBlockStop 0,
        MessageDelta (Reason ''end_turn'') None 0 3, MessageStop, MessageStop]"
  by (simp add: stream_request_def on_data_def on_end_def split_on_blank_line_def frame_def
      chunk_defs example_defs stream_defs)

end
